theory Spec2Isabelle
  imports Complex_Main "HOL-Library.Word" "HOL-Library.Sublist"
begin

section \<open>The hybrid-rendering example: data model\<close>

text \<open>
  The program is \<^verbatim>\<open>examples/shaders/shaders_hybrid_render.c\<close>. C \<^verbatim>\<open>unsigned int\<close> is a
  32-bit word; C \<^verbatim>\<open>int\<close> is an \<open>int\<close> (the program performs no arithmetic on a variable
  \<^verbatim>\<open>int\<close>: it copies and compares them, and negates the constant 450). A finite
  \<^verbatim>\<open>float\<close> or \<^verbatim>\<open>double\<close> is the real number it denotes; every operation that rounds
  (multiplication, division, \<^verbatim>\<open>tan\<close>, the raymath vector functions, the conversion from
  \<^verbatim>\<open>double\<close> to \<^verbatim>\<open>float\<close>) is a parameter of the model, not real arithmetic.
\<close>

type_synonym u32 = "32 word"

text \<open>
  Modelled from the spec: the declarations of \<^verbatim>\<open>raylib.h\<close>, which is not among the
  sources. A texture is (id, width, height, mip count, pixel format), an offscreen
  target is (framebuffer handle, color texture, depth texture), a camera is (position,
  target, up vector, vertical field of view, projection kind). The C field \<^verbatim>\<open>id\<close> is
  \<open>tex_id\<close> in a texture and \<open>rt_id\<close> in a render texture; the fields of the vectors
  and of the rectangle carry a prefix. A shader is known by its handle only. Of the
  enumerations and of the color macros, the members are those the example names,
  together with their neighbours.
\<close>

record Texture =
  tex_id :: u32
  width :: int
  height :: int
  mipmaps :: int
  format :: int

record RenderTexture2D =
  rt_id :: u32
  texture :: Texture
  depth :: Texture

record Vector2 =
  v2_x :: real
  v2_y :: real

record Vector3 =
  v3_x :: real
  v3_y :: real
  v3_z :: real

record Rectangle =
  rec_x :: real
  rec_y :: real
  rec_width :: real
  rec_height :: real

datatype CameraProjection = CAMERA_PERSPECTIVE | CAMERA_ORTHOGRAPHIC

datatype CameraMode =
  CAMERA_CUSTOM | CAMERA_FREE | CAMERA_ORBITAL | CAMERA_FIRST_PERSON | CAMERA_THIRD_PERSON

record Camera =
  position :: Vector3
  target :: Vector3
  up :: Vector3
  fovy :: real
  projection :: CameraProjection

datatype Shader = Shader u32

datatype Color = WHITE | RAYWHITE | RED | PURPLE | DARKGREEN | YELLOW

datatype ShaderUniformDataType = SHADER_UNIFORM_VEC2 | RL_SHADER_UNIFORM_VEC3

datatype uniform_value = Vec2 Vector2 | Vec3 Vector3

datatype TraceLogLevel = LOG_INFO | LOG_WARNING

text \<open>
  Modelled from the spec: the attachment enumerations of \<^verbatim>\<open>rlgl.h\<close>, which is not among
  the sources: the slot of a framebuffer an attachment goes to (a color channel or the
  depth slot) and the kind of object attached (a texture or a renderbuffer).
\<close>

datatype rlFramebufferAttachType =
  RL_ATTACHMENT_COLOR_CHANNEL0 | RL_ATTACHMENT_COLOR_CHANNEL1 | RL_ATTACHMENT_DEPTH
| RL_ATTACHMENT_STENCIL

datatype rlFramebufferAttachTextureType = RL_ATTACHMENT_TEXTURE2D | RL_ATTACHMENT_RENDERBUFFER

text \<open>The struct of uniform locations declared in the example itself.\<close>

record RayLocs =
  camPos :: u32
  camDir :: u32
  screenCenter :: u32

section \<open>Calls into the library\<close>

text \<open>
  Every function the example calls outside its own file is an event, with the arguments
  of the call. The program's effect is the list of events it appends to the history.
  A null pointer argument is \<open>None\<close> for a file name and the address 0 for pixel data.

  Modelled from the spec: the macro \<^verbatim>\<open>TRACELOG\<close>, whose definition is not among the
  sources, logs a message at a level. Its invocation is recorded with the level, the
  format string and the arguments.
\<close>

datatype call =
    InitWindow int int string
  | TextFormat string int
  | LoadShader "string option" string
  | GetShaderLocation Shader string
  | SetShaderValue Shader int uniform_value ShaderUniformDataType
  | SetCameraMode Camera CameraMode
  | SetTargetFPS int
  | WindowShouldClose
  | UpdateCamera Camera
  | BeginTextureMode RenderTexture2D
  | ClearBackground Color
  | rlEnableDepthTest
  | BeginShaderMode Shader
  | DrawRectangleRec Rectangle Color
  | EndShaderMode
  | BeginMode3D Camera
  | DrawCubeWiresV Vector3 Vector3 Color
  | DrawCubeV Vector3 Vector3 Color
  | DrawGrid int real
  | EndMode3D
  | EndTextureMode
  | BeginDrawing
  | DrawTextureRec Texture Rectangle Vector2 Color
  | DrawFPS int int
  | EndDrawing
  | UnloadShader Shader
  | CloseWindow
  | rlLoadFramebuffer int int
  | rlEnableFramebuffer u32
  | rlLoadTexture nat int int int int
  | rlLoadTextureDepth int int bool
  | rlFramebufferAttach u32 u32 rlFramebufferAttachType rlFramebufferAttachTextureType int
  | rlFramebufferComplete u32
  | rlDisableFramebuffer
  | TRACELOG TraceLogLevel string "u32 list"
  | rlUnloadTexture u32
  | rlUnloadFramebuffer u32

text \<open>
  What the library answers is a parameter of the model. The answer of a call may depend
  on everything that happened before it (the state of the GPU, the user's input), so
  each function that returns a value is a function of the history, the call itself being
  the last event of that history. The rounding operations and the constants of the
  absent headers are parameters too.
\<close>

record extern =
  TextFormat_ret :: "call list \<Rightarrow> string"
  LoadShader_ret :: "call list \<Rightarrow> Shader"
  GetShaderLocation_ret :: "call list \<Rightarrow> int"
  WindowShouldClose_ret :: "call list \<Rightarrow> bool"
  UpdateCamera_ret :: "call list \<Rightarrow> Camera"
  rlLoadFramebuffer_ret :: "call list \<Rightarrow> u32"
  rlLoadTexture_ret :: "call list \<Rightarrow> u32"
  rlLoadTextureDepth_ret :: "call list \<Rightarrow> u32"
  rlFramebufferComplete_ret :: "call list \<Rightarrow> bool"
  PIXELFORMAT_UNCOMPRESSED_R8G8B8A8 :: int
  PLATFORM_DESKTOP :: bool
  DEG2RAD :: real
  double_mul :: "real \<Rightarrow> real \<Rightarrow> real"
  double_div :: "real \<Rightarrow> real \<Rightarrow> real"
  double_tan :: "real \<Rightarrow> real"
  double_to_float :: "real \<Rightarrow> real"
  Vector3Subtract :: "Vector3 \<Rightarrow> Vector3 \<Rightarrow> Vector3"
  Vector3Normalize :: "Vector3 \<Rightarrow> Vector3"
  Vector3Scale :: "Vector3 \<Rightarrow> real \<Rightarrow> Vector3"

definition emit :: "call \<Rightarrow> call list \<Rightarrow> call list" where
  "emit c tr = tr @ [c]"

definition ask :: "(call list \<Rightarrow> 'r) \<Rightarrow> call \<Rightarrow> call list \<Rightarrow> 'r \<times> call list" where
  "ask answer c tr = (answer (tr @ [c]), tr @ [c])"

section \<open>The offscreen target\<close>

definition zero_Texture :: Texture where
  "zero_Texture = \<lparr>tex_id = 0, width = 0, height = 0, mipmaps = 0, format = 0\<rparr>"

text \<open>The value of \<^verbatim>\<open>RenderTexture2D target = { 0 }\<close>.\<close>

definition zero_RenderTexture2D :: RenderTexture2D where
  "zero_RenderTexture2D = \<lparr>rt_id = 0, texture = zero_Texture, depth = zero_Texture\<rparr>"

definition LoadRenderTextureDepthTex ::
  "extern \<Rightarrow> int \<Rightarrow> int \<Rightarrow> call list \<Rightarrow> RenderTexture2D \<times> call list" where
  "LoadRenderTextureDepthTex e w h tr0 =
     (let t = zero_RenderTexture2D;
          (fbo, tr1) = ask (rlLoadFramebuffer_ret e) (rlLoadFramebuffer w h) tr0;
          t = t\<lparr>rt_id := fbo\<rparr>
      in if rt_id t > 0 then
           let tr2 = emit (rlEnableFramebuffer (rt_id t)) tr1;
               (tid, tr3) = ask (rlLoadTexture_ret e)
                  (rlLoadTexture 0 w h (PIXELFORMAT_UNCOMPRESSED_R8G8B8A8 e) 1) tr2;
               t = t\<lparr>texture := (texture t)\<lparr>tex_id := tid, width := w, height := h,
                      format := PIXELFORMAT_UNCOMPRESSED_R8G8B8A8 e, mipmaps := 1\<rparr>\<rparr>;
               (did, tr4) = ask (rlLoadTextureDepth_ret e) (rlLoadTextureDepth w h False) tr3;
               t = t\<lparr>depth := (depth t)\<lparr>tex_id := did, width := w, height := h,
                      format := 19, mipmaps := 1\<rparr>\<rparr>;
               tr5 = emit (rlFramebufferAttach (rt_id t) (tex_id (texture t))
                             RL_ATTACHMENT_COLOR_CHANNEL0 RL_ATTACHMENT_TEXTURE2D 0) tr4;
               tr6 = emit (rlFramebufferAttach (rt_id t) (tex_id (depth t))
                             RL_ATTACHMENT_DEPTH RL_ATTACHMENT_TEXTURE2D 0) tr5;
               (valid, tr7) = ask (rlFramebufferComplete_ret e)
                  (rlFramebufferComplete (rt_id t)) tr6;
               tr8 = (if valid
                      then emit (TRACELOG LOG_INFO
                             ''FBO: [ID %i] Framebuffer object created successfully''
                             [rt_id t]) tr7
                      else tr7);
               tr9 = emit rlDisableFramebuffer tr8
           in (t, tr9)
         else (t, emit (TRACELOG LOG_WARNING
                          ''FBO: Framebuffer object can not be created'' []) tr1))"

definition UnloadRenderTextureDepthTex :: "RenderTexture2D \<Rightarrow> call list \<Rightarrow> call list" where
  "UnloadRenderTextureDepthTex t tr0 =
     (if rt_id t > 0 then
        let tr1 = emit (rlUnloadTexture (tex_id (texture t))) tr0;
            tr2 = emit (rlUnloadTexture (tex_id (depth t))) tr1;
            tr3 = emit (rlUnloadFramebuffer (rt_id t)) tr2
        in tr3
      else tr0)"

section \<open>The main program\<close>

definition screenWidth :: int where
  "screenWidth = 800"

definition screenHeight :: int where
  "screenHeight = 450"

definition GLSL_VERSION :: "extern \<Rightarrow> int" where
  "GLSL_VERSION e = (if PLATFORM_DESKTOP e then 330 else 100)"

text \<open>
  The local variables of \<^verbatim>\<open>main\<close> that live across the frame loop. The local
  \<^verbatim>\<open>target\<close> is \<open>target_rt\<close> here (the camera has a field of that name).
\<close>

record main_state =
  raymarch_shader :: Shader
  raster_shader :: Shader
  march_locs :: RayLocs
  target_rt :: RenderTexture2D
  camera :: Camera
  camDist :: real

text \<open>Lines 50 to 91: everything before the loop.\<close>

definition main_init :: "extern \<Rightarrow> call list \<Rightarrow> main_state \<times> call list" where
  "main_init e tr0 =
     (let tr1 = emit (InitWindow screenWidth screenHeight
                        ''raylib [shaders] example - write depth buffer'') tr0;
          (f1, tr2) = ask (TextFormat_ret e)
             (TextFormat ''resources/shaders/glsl%i/hybrid_raymarch.fs'' (GLSL_VERSION e)) tr1;
          (raymarch, tr3) = ask (LoadShader_ret e) (LoadShader None f1) tr2;
          (f2, tr4) = ask (TextFormat_ret e)
             (TextFormat ''resources/shaders/glsl%i/hybrid_raster.fs'' (GLSL_VERSION e)) tr3;
          (raster, tr5) = ask (LoadShader_ret e) (LoadShader None f2) tr4;
          locs = \<lparr>camPos = 0, camDir = 0, screenCenter = 0\<rparr>;
          (l1, tr6) = ask (GetShaderLocation_ret e) (GetShaderLocation raymarch ''camPos'') tr5;
          locs = locs\<lparr>camPos := word_of_int l1\<rparr>;
          (l2, tr7) = ask (GetShaderLocation_ret e) (GetShaderLocation raymarch ''camDir'') tr6;
          locs = locs\<lparr>camDir := word_of_int l2\<rparr>;
          (l3, tr8) = ask (GetShaderLocation_ret e)
             (GetShaderLocation raymarch ''screenCenter'') tr7;
          locs = locs\<lparr>screenCenter := word_of_int l3\<rparr>;
          center = \<lparr>v2_x = double_to_float e (double_div e (of_int screenWidth) 2.0),
                    v2_y = double_to_float e (double_div e (of_int screenHeight) 2.0)\<rparr>;
          tr9 = emit (SetShaderValue raymarch (sint (screenCenter locs)) (Vec2 center)
                        SHADER_UNIFORM_VEC2) tr8;
          (t, tr10) = LoadRenderTextureDepthTex e screenWidth screenHeight tr9;
          cam = \<lparr>position = \<lparr>v3_x = 0.5, v3_y = 1.0, v3_z = 1.5\<rparr>,
                 target = \<lparr>v3_x = 0.0, v3_y = 0.5, v3_z = 0.0\<rparr>,
                 up = \<lparr>v3_x = 0.0, v3_y = 1.0, v3_z = 0.0\<rparr>,
                 fovy = 45.0,
                 projection = CAMERA_PERSPECTIVE\<rparr>;
          dist = double_div e 1.0
                   (double_tan e (double_mul e (double_mul e (fovy cam) 0.5) (DEG2RAD e)));
          tr11 = emit (SetCameraMode cam CAMERA_FIRST_PERSON) tr10;
          tr12 = emit (SetTargetFPS 60) tr11
      in (\<lparr>raymarch_shader = raymarch, raster_shader = raster, march_locs = locs,
           target_rt = t, camera = cam, camDist = dist\<rparr>, tr12))"

text \<open>Lines 97 to 142: the body of the loop, one frame.\<close>

definition frame :: "extern \<Rightarrow> main_state \<Rightarrow> call list \<Rightarrow> main_state \<times> call list" where
  "frame e st tr0 =
     (let (cam, tr1) = ask (UpdateCamera_ret e) (UpdateCamera (camera st)) tr0;
          st = st\<lparr>camera := cam\<rparr>;
          tr2 = emit (SetShaderValue (raymarch_shader st) (sint (camPos (march_locs st)))
                        (Vec3 (position (camera st))) RL_SHADER_UNIFORM_VEC3) tr1;
          dir = Vector3Scale e
                  (Vector3Normalize e
                     (Vector3Subtract e (target (camera st)) (position (camera st))))
                  (double_to_float e (camDist st));
          tr3 = emit (SetShaderValue (raymarch_shader st) (sint (camDir (march_locs st)))
                        (Vec3 dir) RL_SHADER_UNIFORM_VEC3) tr2;
          tr4 = tr3 @
            [BeginTextureMode (target_rt st),
             ClearBackground WHITE,
             rlEnableDepthTest,
             BeginShaderMode (raymarch_shader st),
             DrawRectangleRec \<lparr>rec_x = 0, rec_y = 0, rec_width = of_int screenWidth,
                                rec_height = of_int screenHeight\<rparr> WHITE,
             EndShaderMode,
             BeginMode3D (camera st),
             BeginShaderMode (raster_shader st),
             DrawCubeWiresV \<lparr>v3_x = 0.0, v3_y = 0.5, v3_z = 1.0\<rparr>
                            \<lparr>v3_x = 1.0, v3_y = 1.0, v3_z = 1.0\<rparr> RED,
             DrawCubeV \<lparr>v3_x = 0.0, v3_y = 0.5, v3_z = 1.0\<rparr>
                       \<lparr>v3_x = 1.0, v3_y = 1.0, v3_z = 1.0\<rparr> PURPLE,
             DrawCubeWiresV \<lparr>v3_x = 0.0, v3_y = 0.5, v3_z = - 1.0\<rparr>
                            \<lparr>v3_x = 1.0, v3_y = 1.0, v3_z = 1.0\<rparr> DARKGREEN,
             DrawCubeV \<lparr>v3_x = 0.0, v3_y = 0.5, v3_z = - 1.0\<rparr>
                       \<lparr>v3_x = 1.0, v3_y = 1.0, v3_z = 1.0\<rparr> YELLOW,
             DrawGrid 10 1.0,
             EndShaderMode,
             EndMode3D,
             EndTextureMode];
          tr5 = tr4 @
            [BeginDrawing,
             ClearBackground RAYWHITE,
             DrawTextureRec (texture (target_rt st))
                \<lparr>rec_x = 0, rec_y = 0, rec_width = of_int screenWidth,
                 rec_height = of_int (- screenHeight)\<rparr>
                \<lparr>v2_x = 0, v2_y = 0\<rparr> WHITE,
             DrawFPS 10 10,
             EndDrawing]
      in (st, tr5))"

text \<open>
  Line 95: the loop runs until the window asks to close, which may never happen. The
  loop is given a number of tests of \<^verbatim>\<open>WindowShouldClose\<close> it may make; the flag of
  the result says whether the loop was left within them, and the state and history are
  those reached so far either way.
\<close>

fun main_loop ::
  "nat \<Rightarrow> extern \<Rightarrow> main_state \<Rightarrow> call list \<Rightarrow> bool \<times> main_state \<times> call list" where
  "main_loop 0 e st tr = (False, st, tr)"
| "main_loop (Suc n) e st tr =
     (let (close, tr1) = ask (WindowShouldClose_ret e) WindowShouldClose tr
      in if close then (True, st, tr1)
         else let (st', tr2) = frame e st tr1 in main_loop n e st' tr2)"

text \<open>The whole of \<^verbatim>\<open>main\<close>: \<open>None\<close> when the loop is not left within \<open>n\<close> tests.\<close>

definition main :: "nat \<Rightarrow> extern \<Rightarrow> call list \<Rightarrow> (int \<times> call list) option" where
  "main n e tr0 =
     (let (st0, tr1) = main_init e tr0;
          (closed, st, tr2) = main_loop n e st0 tr1
      in if closed then
           let tr3 = UnloadRenderTextureDepthTex (target_rt st) tr2;
               tr4 = tr3 @ [UnloadShader (raymarch_shader st),
                            UnloadShader (raster_shader st),
                            CloseWindow]
           in Some (0, tr4)
         else None)"

section \<open>Reading a history\<close>

text \<open>The calls made since the history was \<open>tr\<close>, when it has grown to \<open>tr'\<close>.\<close>

definition calls_since :: "call list \<Rightarrow> call list \<Rightarrow> call list" where
  "calls_since tr tr' = drop (length tr) tr'"

text \<open>The framebuffer handles that the attachment calls of a history were given, in order.\<close>

definition attach_fbos :: "call list \<Rightarrow> u32 list" where
  "attach_fbos tr = concat (map (\<lambda>c. case c of
       rlFramebufferAttach fbo tex slot kind mip \<Rightarrow> [fbo] | _ \<Rightarrow> []) tr)"

definition is_GetShaderLocation :: "call \<Rightarrow> bool" where
  "is_GetShaderLocation c = (case c of GetShaderLocation s n \<Rightarrow> True | _ \<Rightarrow> False)"

definition is_DrawTextureRec :: "call \<Rightarrow> bool" where
  "is_DrawTextureRec c = (case c of DrawTextureRec t r p k \<Rightarrow> True | _ \<Rightarrow> False)"

text \<open>The blit of line 139, with the constants 800 and 450 written out.\<close>

definition blit :: "main_state \<Rightarrow> call" where
  "blit st = DrawTextureRec (texture (target_rt st))
        \<lparr>rec_x = 0, rec_y = 0, rec_width = 800, rec_height = - 450\<rparr>
        \<lparr>v2_x = 0, v2_y = 0\<rparr> WHITE"

section \<open>Exact and accurate arithmetic\<close>

text \<open>
  Modelled from the spec: the vector functions of \<^verbatim>\<open>raymath.h\<close>, which is not among the
  sources, in exact arithmetic: the difference of two vectors, the unit vector of a
  direction (a vector of length zero is left as it is) and the product of a vector and
  a scalar, with the length of a vector to measure a magnitude.
\<close>

definition Vector3Length :: "Vector3 \<Rightarrow> real" where
  "Vector3Length v = sqrt (v3_x v * v3_x v + v3_y v * v3_y v + v3_z v * v3_z v)"

definition exact_Vector3Subtract :: "Vector3 \<Rightarrow> Vector3 \<Rightarrow> Vector3" where
  "exact_Vector3Subtract v1 v2 =
     \<lparr>v3_x = v3_x v1 - v3_x v2, v3_y = v3_y v1 - v3_y v2, v3_z = v3_z v1 - v3_z v2\<rparr>"

definition exact_Vector3Scale :: "Vector3 \<Rightarrow> real \<Rightarrow> Vector3" where
  "exact_Vector3Scale v scalar =
     \<lparr>v3_x = v3_x v * scalar, v3_y = v3_y v * scalar, v3_z = v3_z v * scalar\<rparr>"

definition exact_Vector3Normalize :: "Vector3 \<Rightarrow> Vector3" where
  "exact_Vector3Normalize v =
     (let len = Vector3Length v;
          len = (if len = 0 then 1 else len);
          ilength = 1 / len
      in \<lparr>v3_x = v3_x v * ilength, v3_y = v3_y v * ilength, v3_z = v3_z v * ilength\<rparr>)"


text \<open>
  A library whose \<^verbatim>\<open>double\<close> multiplication, division and tangent are within a
  relative error of one part in \<open>10\<^sup>9\<close> of the exact result, and whose constant
  \<^verbatim>\<open>DEG2RAD\<close> is within \<open>10\<^sup>-\<^sup>9\<close> of \<open>\<pi> / 180\<close>.
\<close>

definition accurate_doubles :: "extern \<Rightarrow> bool" where
  "accurate_doubles e \<longleftrightarrow>
     (\<forall>a b. \<bar>double_mul e a b - a * b\<bar> \<le> \<bar>a * b\<bar> / 10 ^ 9) \<and>
     (\<forall>a b. \<bar>double_div e a b - a / b\<bar> \<le> \<bar>a / b\<bar> / 10 ^ 9) \<and>
     (\<forall>a. \<bar>double_tan e a - tan a\<bar> \<le> \<bar>tan a\<bar> / 10 ^ 9) \<and>
     \<bar>DEG2RAD e - pi / 180\<bar> \<le> 1 / 10 ^ 9"

section \<open>The first frame\<close>


section \<open>A sample library\<close>

text \<open>
  A library to run the model on: \<^verbatim>\<open>rlLoadFramebuffer\<close> answers \<open>fbo\<close> (zero when
  the allocation fails), the completeness check answers \<open>ok\<close>, the window asks to close
  at the second test, \<^verbatim>\<open>UpdateCamera\<close> leaves the camera as it is, and arithmetic is
  exact.
\<close>

definition unchanged_camera :: "call list \<Rightarrow> Camera" where
  "unchanged_camera tr = (case last tr of UpdateCamera c \<Rightarrow> c
     | _ \<Rightarrow> \<lparr>position = \<lparr>v3_x = 0, v3_y = 0, v3_z = 0\<rparr>,
            target = \<lparr>v3_x = 0, v3_y = 0, v3_z = 0\<rparr>,
            up = \<lparr>v3_x = 0, v3_y = 0, v3_z = 0\<rparr>,
            fovy = 0, projection = CAMERA_PERSPECTIVE\<rparr>)"

definition sample_extern :: "u32 \<Rightarrow> bool \<Rightarrow> extern" where
  "sample_extern fbo ok =
     \<lparr>TextFormat_ret = (\<lambda>tr. ''shader.fs''),
      LoadShader_ret = (\<lambda>tr. Shader (of_nat (length tr))),
      GetShaderLocation_ret = (\<lambda>tr. - 1),
      WindowShouldClose_ret = (\<lambda>tr. 2 \<le> length (filter (\<lambda>c. c = WindowShouldClose) tr)),
      UpdateCamera_ret = unchanged_camera,
      rlLoadFramebuffer_ret = (\<lambda>tr. fbo),
      rlLoadTexture_ret = (\<lambda>tr. 2),
      rlLoadTextureDepth_ret = (\<lambda>tr. 3),
      rlFramebufferComplete_ret = (\<lambda>tr. ok),
      PIXELFORMAT_UNCOMPRESSED_R8G8B8A8 = 7,
      PLATFORM_DESKTOP = True,
      DEG2RAD = pi / 180,
      double_mul = (\<lambda>a b. a * b),
      double_div = (\<lambda>a b. a / b),
      double_tan = tan,
      double_to_float = (\<lambda>a. a),
      Vector3Subtract = exact_Vector3Subtract,
      Vector3Normalize = exact_Vector3Normalize,
      Vector3Scale = exact_Vector3Scale\<rparr>"



section \<open>Creating and destroying the offscreen target\<close>

lemmas create_defs = LoadRenderTextureDepthTex_def ask_def emit_def Let_def
  zero_RenderTexture2D_def zero_Texture_def

lemma ask_calls: "ask answer c tr = (r, tr') \<Longrightarrow> tr' = tr @ [c]"
  by (simp add: ask_def)

lemma create_failure:
  "rlLoadFramebuffer_ret e (tr @ [rlLoadFramebuffer w h]) = 0 \<Longrightarrow>
   LoadRenderTextureDepthTex e w h tr =
     (\<lparr>rt_id = 0,
       texture = \<lparr>tex_id = 0, width = 0, height = 0, mipmaps = 0, format = 0\<rparr>,
       depth = \<lparr>tex_id = 0, width = 0, height = 0, mipmaps = 0, format = 0\<rparr>\<rparr>,
      tr @ [rlLoadFramebuffer w h,
            TRACELOG LOG_WARNING ''FBO: Framebuffer object can not be created'' []])"
  by (simp add: create_defs)

text \<open>
  When the framebuffer was allocated, the history grows by the nine or ten calls of the
  first branch, in the order of the source; the message at level \<open>LOG_INFO\<close> is there
  exactly when the completeness check answered true.
\<close>

lemma create_trace:
  "rlLoadFramebuffer_ret e (tr @ [rlLoadFramebuffer w h]) \<noteq> 0 \<Longrightarrow>
   t = fst (LoadRenderTextureDepthTex e w h tr) \<Longrightarrow>
   snd (LoadRenderTextureDepthTex e w h tr) =
     tr @ [rlLoadFramebuffer w h,
           rlEnableFramebuffer (rt_id t),
           rlLoadTexture 0 w h (PIXELFORMAT_UNCOMPRESSED_R8G8B8A8 e) 1,
           rlLoadTextureDepth w h False,
           rlFramebufferAttach (rt_id t) (tex_id (texture t))
             RL_ATTACHMENT_COLOR_CHANNEL0 RL_ATTACHMENT_TEXTURE2D 0,
           rlFramebufferAttach (rt_id t) (tex_id (depth t))
             RL_ATTACHMENT_DEPTH RL_ATTACHMENT_TEXTURE2D 0,
           rlFramebufferComplete (rt_id t)] @
       (if TRACELOG LOG_INFO ''FBO: [ID %i] Framebuffer object created successfully''
             [rt_id t] \<in> set (calls_since tr (snd (LoadRenderTextureDepthTex e w h tr)))
        then [TRACELOG LOG_INFO ''FBO: [ID %i] Framebuffer object created successfully''
             [rt_id t]] else []) @ [rlDisableFramebuffer]"
  by (simp add: create_defs calls_since_def word_gt_0 split: prod.splits)

lemma create_GetShaderLocation:
  "LoadRenderTextureDepthTex e w h tr = (t, tr') \<Longrightarrow>
   filter is_GetShaderLocation tr' = filter is_GetShaderLocation tr"
  by (auto simp: LoadRenderTextureDepthTex_def emit_def Let_def is_GetShaderLocation_def
        split: prod.splits if_splits dest!: ask_calls)

lemma create_DrawTextureRec:
  "LoadRenderTextureDepthTex e w h tr = (t, tr') \<Longrightarrow>
   filter is_DrawTextureRec tr' = filter is_DrawTextureRec tr"
  by (auto simp: LoadRenderTextureDepthTex_def emit_def Let_def is_DrawTextureRec_def
        split: prod.splits if_splits dest!: ask_calls)

lemma unload_valid:
  "rt_id t \<noteq> 0 \<Longrightarrow> UnloadRenderTextureDepthTex t tr =
     tr @ [rlUnloadTexture (tex_id (texture t)), rlUnloadTexture (tex_id (depth t)),
           rlUnloadFramebuffer (rt_id t)]"
  by (simp add: UnloadRenderTextureDepthTex_def emit_def Let_def word_gt_0)

lemma unload_invalid:
  "rt_id t = 0 \<Longrightarrow> UnloadRenderTextureDepthTex t tr = tr"
  by (simp add: UnloadRenderTextureDepthTex_def)

lemma unload_DrawTextureRec:
  "filter is_DrawTextureRec (UnloadRenderTextureDepthTex t tr) = filter is_DrawTextureRec tr"
  by (simp add: UnloadRenderTextureDepthTex_def emit_def Let_def is_DrawTextureRec_def)

text \<open>
  Claim C1, as amended. For every width and height above zero, if
  \<^verbatim>\<open>rlLoadFramebuffer\<close> returns a nonzero handle, the target that
  \<open>LoadRenderTextureDepthTex\<close> returns carries that handle, its color texture and its
  depth texture both record the requested width and height and one mip level, and the
  color texture has the format \<^verbatim>\<open>PIXELFORMAT_UNCOMPRESSED_R8G8B8A8\<close>. The color texture
  is the one allocated by \<^verbatim>\<open>rlLoadTexture(0, width, height, format, 1)\<close>, the depth
  texture the one allocated by \<^verbatim>\<open>rlLoadTextureDepth(width, height, false)\<close>, and the
  two calls that follow attach the color texture to color channel 0 and the depth
  texture to the depth slot of that framebuffer, both as 2D textures.
\<close>

theorem create_allocated:
  fixes e w h tr
  defines "fbo \<equiv> rlLoadFramebuffer_ret e (tr @ [rlLoadFramebuffer w h])"
    and "t \<equiv> fst (LoadRenderTextureDepthTex e w h tr)"
    and "new \<equiv> calls_since tr (snd (LoadRenderTextureDepthTex e w h tr))"
  assumes width: "0 < w" and height: "0 < h" and allocated: "fbo \<noteq> 0"
  shows "rt_id t = fbo
    \<and> width (texture t) = w \<and> height (texture t) = h
    \<and> format (texture t) = PIXELFORMAT_UNCOMPRESSED_R8G8B8A8 e \<and> mipmaps (texture t) = 1
    \<and> width (depth t) = w \<and> height (depth t) = h \<and> mipmaps (depth t) = 1
    \<and> take 4 new = [rlLoadFramebuffer w h, rlEnableFramebuffer fbo,
          rlLoadTexture 0 w h (PIXELFORMAT_UNCOMPRESSED_R8G8B8A8 e) 1,
          rlLoadTextureDepth w h False]
    \<and> tex_id (texture t) = rlLoadTexture_ret e (tr @ take 3 new)
    \<and> tex_id (depth t) = rlLoadTextureDepth_ret e (tr @ take 4 new)
    \<and> take 2 (drop 4 new) =
         [rlFramebufferAttach fbo (tex_id (texture t))
            RL_ATTACHMENT_COLOR_CHANNEL0 RL_ATTACHMENT_TEXTURE2D 0,
          rlFramebufferAttach fbo (tex_id (depth t))
            RL_ATTACHMENT_DEPTH RL_ATTACHMENT_TEXTURE2D 0]"
  using allocated
  by (simp add: fbo_def t_def new_def calls_since_def create_defs word_gt_0
        split: prod.splits)

theorem create_allocated_witness:
  "(0::int) < 800 \<and> (0::int) < 450
   \<and> rlLoadFramebuffer_ret (sample_extern 1 True) ([] @ [rlLoadFramebuffer 800 450]) \<noteq> 0
   \<and> fst (LoadRenderTextureDepthTex (sample_extern 1 True) 800 450 []) =
       \<lparr>rt_id = 1,
        texture = \<lparr>tex_id = 2, width = 800, height = 450, mipmaps = 1, format = 7\<rparr>,
        depth = \<lparr>tex_id = 3, width = 800, height = 450, mipmaps = 1, format = 19\<rparr>\<rparr>
   \<and> take 2 (drop 4 (calls_since []
         (snd (LoadRenderTextureDepthTex (sample_extern 1 True) 800 450 [])))) =
       [rlFramebufferAttach 1 2 RL_ATTACHMENT_COLOR_CHANNEL0 RL_ATTACHMENT_TEXTURE2D 0,
        rlFramebufferAttach 1 3 RL_ATTACHMENT_DEPTH RL_ATTACHMENT_TEXTURE2D 0]"
proof -
  have ok: "rlLoadFramebuffer_ret (sample_extern 1 True) ([] @ [rlLoadFramebuffer 800 450]) \<noteq> 0"
    by (simp add: sample_extern_def)
  have pos: "(0::int) < 800" "(0::int) < 450"
    by simp_all
  from create_allocated [OF pos ok] ok show ?thesis
    by (simp add: create_defs sample_extern_def calls_since_def)
qed

text \<open>
  Without the condition on the handle the claim fails: at 800 by 450, with a library
  whose \<^verbatim>\<open>rlLoadFramebuffer\<close> returns zero, the color texture of the result records
  the width zero.
\<close>

theorem create_size_counterexample:
  "(0::int) < 800 \<and> (0::int) < 450 \<and>
   width (texture (fst (LoadRenderTextureDepthTex (sample_extern 0 True) 800 450 []))) \<noteq> 800"
  by (simp add: create_defs sample_extern_def)

text \<open>
  Claim C4. If \<^verbatim>\<open>rlLoadFramebuffer\<close> returns zero, \<open>LoadRenderTextureDepthTex\<close> returns
  the structure in which every field is zero, and the only call it makes after the
  failed allocation is the \<open>TRACELOG\<close> at level \<open>LOG_WARNING\<close>: it returns to its
  caller, and the zero handle is all the caller gets.
\<close>

theorem create_failure_zeroed:
  assumes "rlLoadFramebuffer_ret e (tr @ [rlLoadFramebuffer w h]) = 0"
  shows "LoadRenderTextureDepthTex e w h tr =
     (\<lparr>rt_id = 0,
       texture = \<lparr>tex_id = 0, width = 0, height = 0, mipmaps = 0, format = 0\<rparr>,
       depth = \<lparr>tex_id = 0, width = 0, height = 0, mipmaps = 0, format = 0\<rparr>\<rparr>,
      tr @ [rlLoadFramebuffer w h,
            TRACELOG LOG_WARNING ''FBO: Framebuffer object can not be created'' []])"
  using assms by (rule create_failure)

theorem create_failure_zeroed_witness:
  "rlLoadFramebuffer_ret (sample_extern 0 True)
     ([InitWindow 800 450 ''w''] @ [rlLoadFramebuffer 800 450]) = 0
   \<and> LoadRenderTextureDepthTex (sample_extern 0 True) 800 450 [InitWindow 800 450 ''w''] =
     (\<lparr>rt_id = 0,
       texture = \<lparr>tex_id = 0, width = 0, height = 0, mipmaps = 0, format = 0\<rparr>,
       depth = \<lparr>tex_id = 0, width = 0, height = 0, mipmaps = 0, format = 0\<rparr>\<rparr>,
      [InitWindow 800 450 ''w'', rlLoadFramebuffer 800 450,
       TRACELOG LOG_WARNING ''FBO: Framebuffer object can not be created'' []])"
proof -
  have fails: "rlLoadFramebuffer_ret (sample_extern 0 True)
      ([InitWindow 800 450 ''w''] @ [rlLoadFramebuffer 800 450]) = 0"
    by (simp add: sample_extern_def)
  from create_failure_zeroed [OF fails] fails show ?thesis
    by simp
qed

text \<open>
  Claim C5. \<open>UnloadRenderTextureDepthTex\<close>, given a target with a nonzero framebuffer
  handle, releases the color texture, then the depth texture, then the framebuffer, in
  that order and nothing else; given a target with the handle zero it makes no call.
\<close>

theorem unload_releases_in_order:
  "(rt_id t \<noteq> 0 \<longrightarrow>
      UnloadRenderTextureDepthTex t tr =
        tr @ [rlUnloadTexture (tex_id (texture t)), rlUnloadTexture (tex_id (depth t)),
              rlUnloadFramebuffer (rt_id t)])
   \<and> (rt_id t = 0 \<longrightarrow> UnloadRenderTextureDepthTex t tr = tr)"
  by (simp add: unload_valid unload_invalid)

theorem unload_releases_in_order_witness:
  "rt_id (fst (LoadRenderTextureDepthTex (sample_extern 1 True) 800 450 [])) \<noteq> 0
   \<and> UnloadRenderTextureDepthTex
        (fst (LoadRenderTextureDepthTex (sample_extern 1 True) 800 450 [])) [EndDrawing] =
        [EndDrawing, rlUnloadTexture 2, rlUnloadTexture 3, rlUnloadFramebuffer 1]
   \<and> rt_id (fst (LoadRenderTextureDepthTex (sample_extern 0 True) 800 450 [])) = 0
   \<and> UnloadRenderTextureDepthTex
        (fst (LoadRenderTextureDepthTex (sample_extern 0 True) 800 450 [])) [EndDrawing] =
        [EndDrawing]"
  using unload_releases_in_order
          [of "fst (LoadRenderTextureDepthTex (sample_extern 1 True) 800 450 [])" "[EndDrawing]"]
        unload_releases_in_order
          [of "fst (LoadRenderTextureDepthTex (sample_extern 0 True) 800 450 [])" "[EndDrawing]"]
  by (simp add: create_defs sample_extern_def)

text \<open>
  Claim C6. Whatever the size (0 by 0 included) and whatever the library answers, no
  attachment call of \<open>LoadRenderTextureDepthTex\<close> is given the framebuffer handle zero:
  when \<^verbatim>\<open>rlLoadFramebuffer\<close> returns zero there is no attachment call at all, and when
  it returns a nonzero handle the two attachment calls are given that handle.
\<close>

theorem attach_only_on_valid_framebuffer:
  fixes e w h tr
  defines "fbo \<equiv> rlLoadFramebuffer_ret e (tr @ [rlLoadFramebuffer w h])"
    and "new \<equiv> calls_since tr (snd (LoadRenderTextureDepthTex e w h tr))"
  shows "0 \<notin> set (attach_fbos new)
    \<and> (fbo = 0 \<longrightarrow> attach_fbos new = [])
    \<and> (fbo \<noteq> 0 \<longrightarrow> attach_fbos new = [fbo, fbo])"
  by (simp add: fbo_def new_def calls_since_def attach_fbos_def create_defs word_gt_0
        split: prod.splits)

theorem attach_only_on_valid_framebuffer_witness:
  "rlLoadFramebuffer_ret (sample_extern 0 True) ([] @ [rlLoadFramebuffer 0 0]) = 0
   \<and> attach_fbos (calls_since []
         (snd (LoadRenderTextureDepthTex (sample_extern 0 True) 0 0 []))) = []
   \<and> rlLoadFramebuffer_ret (sample_extern 5 False) ([] @ [rlLoadFramebuffer 0 0]) \<noteq> 0
   \<and> attach_fbos (calls_since []
         (snd (LoadRenderTextureDepthTex (sample_extern 5 False) 0 0 []))) = [5, 5]"
  using attach_only_on_valid_framebuffer
          [where e = "sample_extern 0 True" and tr = "[]" and w = 0 and h = 0]
        attach_only_on_valid_framebuffer
          [where e = "sample_extern 5 False" and tr = "[]" and w = 0 and h = 0]
  by (simp add: sample_extern_def)

text \<open>
  Claim C10. When \<^verbatim>\<open>rlLoadFramebuffer\<close> returns a nonzero handle, the target that
  \<open>LoadRenderTextureDepthTex\<close> returns is the same whatever the completeness check
  answers: under any two answers \<open>c1\<close> and \<open>c2\<close> of \<^verbatim>\<open>rlFramebufferComplete\<close> the
  returned targets are equal, they carry the handle and the requested size, and both
  attachment calls were made.
\<close>

theorem create_ignores_completeness:
  fixes e w h tr c1 c2
  defines "fbo \<equiv> rlLoadFramebuffer_ret e (tr @ [rlLoadFramebuffer w h])"
    and "r1 \<equiv> LoadRenderTextureDepthTex (e\<lparr>rlFramebufferComplete_ret := c1\<rparr>) w h tr"
    and "r2 \<equiv> LoadRenderTextureDepthTex (e\<lparr>rlFramebufferComplete_ret := c2\<rparr>) w h tr"
  assumes valid: "fbo \<noteq> 0"
  shows "fst r1 = fst r2
    \<and> rt_id (fst r1) = fbo
    \<and> width (texture (fst r1)) = w \<and> height (texture (fst r1)) = h
    \<and> width (depth (fst r1)) = w \<and> height (depth (fst r1)) = h
    \<and> attach_fbos (calls_since tr (snd r1)) = [fbo, fbo]
    \<and> attach_fbos (calls_since tr (snd r2)) = [fbo, fbo]"
  using valid
  by (simp add: fbo_def r1_def r2_def calls_since_def attach_fbos_def create_defs word_gt_0
        split: prod.splits)

theorem create_ignores_completeness_witness:
  "rlLoadFramebuffer_ret (sample_extern 1 True) ([] @ [rlLoadFramebuffer 800 450]) \<noteq> 0
   \<and> fst (LoadRenderTextureDepthTex
        ((sample_extern 1 True)\<lparr>rlFramebufferComplete_ret := \<lambda>tr. True\<rparr>) 800 450 []) =
     fst (LoadRenderTextureDepthTex
        ((sample_extern 1 True)\<lparr>rlFramebufferComplete_ret := \<lambda>tr. False\<rparr>) 800 450 [])
   \<and> rt_id (fst (LoadRenderTextureDepthTex
        ((sample_extern 1 True)\<lparr>rlFramebufferComplete_ret := \<lambda>tr. False\<rparr>) 800 450 [])) = 1"
proof -
  have valid: "rlLoadFramebuffer_ret (sample_extern 1 True) ([] @ [rlLoadFramebuffer 800 450]) \<noteq> 0"
    by (simp add: sample_extern_def)
  from create_ignores_completeness
         [OF valid, where ?c1.0 = "\<lambda>tr. True" and ?c2.0 = "\<lambda>tr. False"] valid
  show ?thesis
    by (simp add: sample_extern_def create_defs)
qed

section \<open>The frame loop\<close>

text \<open>A frame changes no local variable of \<^verbatim>\<open>main\<close> but the camera.\<close>

lemma frame_state:
  "fst (frame e st tr) = st\<lparr>camera := UpdateCamera_ret e (tr @ [UpdateCamera (camera st)])\<rparr>"
  by (simp add: frame_def ask_def emit_def Let_def)

text \<open>
  The first three calls of a frame: the camera update, then the upload of the updated
  position to the location \<open>camPos\<close> and of the scaled, normalised direction from the
  position to the target to the location \<open>camDir\<close>.
\<close>

lemma frame_uploads:
  "take 3 (calls_since tr (snd (frame e st tr))) =
     [UpdateCamera (camera st),
      SetShaderValue (raymarch_shader st) (sint (camPos (march_locs st)))
        (Vec3 (position (camera (fst (frame e st tr))))) RL_SHADER_UNIFORM_VEC3,
      SetShaderValue (raymarch_shader st) (sint (camDir (march_locs st)))
        (Vec3 (Vector3Scale e
                 (Vector3Normalize e
                    (Vector3Subtract e (target (camera (fst (frame e st tr))))
                       (position (camera (fst (frame e st tr))))))
                 (double_to_float e (camDist st))))
        RL_SHADER_UNIFORM_VEC3]"
  by (simp add: frame_def ask_def emit_def Let_def calls_since_def)

lemma frame_GetShaderLocation:
  "filter is_GetShaderLocation (snd (frame e st tr)) = filter is_GetShaderLocation tr"
  by (simp add: frame_def ask_def emit_def Let_def is_GetShaderLocation_def)

lemma frame_DrawTextureRec:
  "filter is_DrawTextureRec (snd (frame e st tr)) = filter is_DrawTextureRec tr @ [blit st]"
  by (simp add: frame_def ask_def emit_def Let_def is_DrawTextureRec_def blit_def
        screenWidth_def screenHeight_def)

lemma frame_present:
  "suffix [BeginDrawing, ClearBackground RAYWHITE,
           DrawTextureRec (texture (target_rt st))
             \<lparr>rec_x = 0, rec_y = 0, rec_width = of_int screenWidth,
              rec_height = - of_int screenHeight\<rparr>
             \<lparr>v2_x = 0, v2_y = 0\<rparr> WHITE,
           DrawFPS 10 10, EndDrawing]
     (snd (frame e st tr))"
  by (simp add: frame_def ask_def emit_def Let_def suffix_def)

lemmas loop_step = ask_def Let_def case_prod_beta frame_state

lemma loop_camDist: "camDist (fst (snd (main_loop n e st tr))) = camDist st"
  by (induction n arbitrary: st tr) (simp_all add: loop_step)

lemma loop_march_locs: "march_locs (fst (snd (main_loop n e st tr))) = march_locs st"
  by (induction n arbitrary: st tr) (simp_all add: loop_step)

lemma loop_target_rt: "target_rt (fst (snd (main_loop n e st tr))) = target_rt st"
  by (induction n arbitrary: st tr) (simp_all add: loop_step)

lemma loop_raymarch_shader:
  "raymarch_shader (fst (snd (main_loop n e st tr))) = raymarch_shader st"
  by (induction n arbitrary: st tr) (simp_all add: loop_step)

lemma loop_raster_shader:
  "raster_shader (fst (snd (main_loop n e st tr))) = raster_shader st"
  by (induction n arbitrary: st tr) (simp_all add: loop_step)

lemma loop_GetShaderLocation:
  "filter is_GetShaderLocation (snd (snd (main_loop n e st tr))) =
     filter is_GetShaderLocation tr"
  by (induction n arbitrary: st tr)
     (simp_all add: loop_step frame_GetShaderLocation is_GetShaderLocation_def)

text \<open>Every frame that ran made one blit, the same one each time.\<close>

lemma loop_DrawTextureRec:
  "\<exists>k\<le>n. filter is_DrawTextureRec (snd (snd (main_loop n e st tr))) =
     filter is_DrawTextureRec tr @ replicate k (blit st)"
proof (induction n arbitrary: st tr)
  case 0
  show ?case by simp
next
  case (Suc n)
  let ?asked = "tr @ [WindowShouldClose]"
  show ?case
  proof (cases "WindowShouldClose_ret e ?asked")
    case True
    then have "filter is_DrawTextureRec (snd (snd (main_loop (Suc n) e st tr))) =
        filter is_DrawTextureRec tr @ replicate 0 (blit st)"
      by (simp add: ask_def is_DrawTextureRec_def)
    then show ?thesis by blast
  next
    case False
    let ?next = "fst (frame e st ?asked)" and ?drawn = "snd (frame e st ?asked)"
    from Suc.IH [of ?next ?drawn] obtain k where k: "k \<le> n"
      and run: "filter is_DrawTextureRec (snd (snd (main_loop n e ?next ?drawn))) =
        filter is_DrawTextureRec ?drawn @ replicate k (blit ?next)"
      by blast
    have same: "blit ?next = blit st"
      by (simp add: blit_def frame_state)
    have one: "filter is_DrawTextureRec ?drawn = filter is_DrawTextureRec tr @ [blit st]"
      by (simp add: frame_DrawTextureRec is_DrawTextureRec_def)
    have "filter is_DrawTextureRec (snd (snd (main_loop (Suc n) e st tr))) =
        filter is_DrawTextureRec tr @ replicate (Suc k) (blit st)"
      using False run by (simp add: ask_def case_prod_beta same one)
    with k show ?thesis by (meson Suc_le_mono)
  qed
qed

subsection \<open>Before the loop\<close>

lemma init_GetShaderLocation:
  "main_init e tr = (st, tr') \<Longrightarrow>
   filter is_GetShaderLocation tr' =
     filter is_GetShaderLocation tr @
     [GetShaderLocation (raymarch_shader st) ''camPos'',
      GetShaderLocation (raymarch_shader st) ''camDir'',
      GetShaderLocation (raymarch_shader st) ''screenCenter'']"
  by (auto simp: main_init_def emit_def Let_def is_GetShaderLocation_def
        split: prod.splits dest!: ask_calls create_GetShaderLocation)

lemma init_DrawTextureRec:
  "main_init e tr = (st, tr') \<Longrightarrow>
   filter is_DrawTextureRec tr' = filter is_DrawTextureRec tr"
  by (auto simp: main_init_def emit_def Let_def is_DrawTextureRec_def
        split: prod.splits dest!: ask_calls create_DrawTextureRec)

lemma init_camera:
  "main_init e tr = (st, tr') \<Longrightarrow>
   camera st = \<lparr>position = \<lparr>v3_x = 0.5, v3_y = 1, v3_z = 1.5\<rparr>,
                target = \<lparr>v3_x = 0, v3_y = 0.5, v3_z = 0\<rparr>,
                up = \<lparr>v3_x = 0, v3_y = 1, v3_z = 0\<rparr>,
                fovy = 45, projection = CAMERA_PERSPECTIVE\<rparr>"
  by (auto simp: main_init_def Let_def split: prod.splits)

lemma init_camDist:
  "main_init e tr = (st, tr') \<Longrightarrow>
   camDist st = double_div e 1 (double_tan e (double_mul e (double_mul e 45 0.5) (DEG2RAD e)))"
  by (auto simp: main_init_def Let_def split: prod.splits)

subsection \<open>The whole program\<close>

lemma main_returns:
  "main n e tr0 \<noteq> None \<longleftrightarrow>
   fst (main_loop n e (fst (main_init e tr0)) (snd (main_init e tr0)))"
  by (simp add: main_def case_prod_beta Let_def)

lemma main_DrawTextureRec:
  assumes "main n e tr0 = Some (r, tr)"
  shows "\<exists>k\<le>n. filter is_DrawTextureRec tr =
     filter is_DrawTextureRec tr0 @ replicate k (blit (fst (main_init e tr0)))"
proof -
  obtain init_st init_tr where init: "main_init e tr0 = (init_st, init_tr)"
    by (cases "main_init e tr0")
  let ?run = "main_loop n e init_st init_tr"
  from assms init have tr: "tr = UnloadRenderTextureDepthTex (target_rt (fst (snd ?run)))
      (snd (snd ?run)) @
      [UnloadShader (raymarch_shader (fst (snd ?run))),
       UnloadShader (raster_shader (fst (snd ?run))), CloseWindow]"
    by (simp add: main_def case_prod_beta Let_def split: if_splits)
  obtain k where k: "k \<le> n" and run: "filter is_DrawTextureRec (snd (snd ?run)) =
      filter is_DrawTextureRec init_tr @ replicate k (blit init_st)"
    using loop_DrawTextureRec [of n e init_st init_tr] by blast
  have "filter is_DrawTextureRec tr = filter is_DrawTextureRec tr0 @ replicate k (blit init_st)"
    using run init_DrawTextureRec [OF init]
    by (simp add: tr unload_DrawTextureRec is_DrawTextureRec_def)
  with k init show ?thesis by auto
qed

text \<open>
  With the sample library the window closes at the second test: one test is not enough
  for \<open>main\<close> to return, two are, and the program then returns 0 after one frame.
\<close>

lemmas run_defs = main_def main_init_def frame_def create_defs UnloadRenderTextureDepthTex_def
  sample_extern_def unchanged_camera_def screenWidth_def screenHeight_def GLSL_VERSION_def
  eval_nat_numeral

lemma sample_run:
  "main 1 (sample_extern 1 True) [] = None
   \<and> map_option fst (main 2 (sample_extern 1 True) []) = Some 0
   \<and> map_option (\<lambda>r. length (filter is_DrawTextureRec (snd r)))
        (main 2 (sample_extern 1 True) []) = Some 1"
  by (simp add: run_defs is_DrawTextureRec_def)

text \<open>
  Claim C8. The presentation step of a frame is the last five calls of the frame, and
  its blit draws the color texture of the offscreen target with the source rectangle
  (0, 0, screenWidth, -screenHeight): the width is positive and the height is negative.
  It is the only \<^verbatim>\<open>DrawTextureRec\<close> of the frame, and however many frames the loop has
  run, each made this one blit.
\<close>

theorem presentation_blit_flipped:
  "suffix [BeginDrawing, ClearBackground RAYWHITE,
           DrawTextureRec (texture (target_rt st))
             \<lparr>rec_x = 0, rec_y = 0, rec_width = of_int screenWidth,
              rec_height = - of_int screenHeight\<rparr>
             \<lparr>v2_x = 0, v2_y = 0\<rparr> WHITE,
           DrawFPS 10 10, EndDrawing]
     (snd (frame e st tr))
   \<and> filter is_DrawTextureRec (snd (frame e st tr)) =
       filter is_DrawTextureRec tr @
       [DrawTextureRec (texture (target_rt st))
          \<lparr>rec_x = 0, rec_y = 0, rec_width = of_int screenWidth,
           rec_height = - of_int screenHeight\<rparr>
          \<lparr>v2_x = 0, v2_y = 0\<rparr> WHITE]
   \<and> (\<exists>k\<le>n. filter is_DrawTextureRec (snd (snd (main_loop n e st tr))) =
         filter is_DrawTextureRec tr @
         replicate k (DrawTextureRec (texture (target_rt st))
            \<lparr>rec_x = 0, rec_y = 0, rec_width = of_int screenWidth,
             rec_height = - of_int screenHeight\<rparr>
            \<lparr>v2_x = 0, v2_y = 0\<rparr> WHITE))
   \<and> (0::real) < of_int screenWidth \<and> - of_int screenHeight < (0::real)"
  using frame_present [of st e tr] frame_DrawTextureRec [of e st tr]
    loop_DrawTextureRec [of n e st tr]
  by (simp add: blit_def screenWidth_def screenHeight_def)

subsection \<open>Resolving the uniform locations\<close>

lemma create_extends:
  "LoadRenderTextureDepthTex e w h tr = (t, tr') \<Longrightarrow> \<exists>new. tr' = tr @ new"
  by (auto simp: LoadRenderTextureDepthTex_def emit_def Let_def
        split: prod.splits if_splits dest!: ask_calls)

lemma init_resolves:
  assumes "main_init e tr = (st, tr')"
  defines "new \<equiv> calls_since tr tr'"
  shows "take 8 new =
      [InitWindow screenWidth screenHeight ''raylib [shaders] example - write depth buffer'',
       TextFormat ''resources/shaders/glsl%i/hybrid_raymarch.fs'' (GLSL_VERSION e),
       LoadShader None (TextFormat_ret e (tr @ take 2 new)),
       TextFormat ''resources/shaders/glsl%i/hybrid_raster.fs'' (GLSL_VERSION e),
       LoadShader None (TextFormat_ret e (tr @ take 4 new)),
       GetShaderLocation (raymarch_shader st) ''camPos'',
       GetShaderLocation (raymarch_shader st) ''camDir'',
       GetShaderLocation (raymarch_shader st) ''screenCenter'']"
    and "raymarch_shader st = LoadShader_ret e (tr @ take 3 new)"
    and "raster_shader st = LoadShader_ret e (tr @ take 5 new)"
    and "march_locs st =
      \<lparr>camPos = word_of_int (GetShaderLocation_ret e (tr @ take 6 new)),
       camDir = word_of_int (GetShaderLocation_ret e (tr @ take 7 new)),
       screenCenter = word_of_int (GetShaderLocation_ret e (tr @ take 8 new))\<rparr>"
  using assms(1) unfolding new_def
  by (auto simp: main_init_def emit_def ask_def Let_def calls_since_def
        split: prod.splits dest!: create_extends)

text \<open>
  Claim C9. A frame leaves \<open>camDist\<close> and the table of uniform locations as they were
  (it changes the camera and nothing else) and makes no \<^verbatim>\<open>GetShaderLocation\<close> call,
  and so does any number of iterations of the loop. Before the loop, \<open>main\<close> opens the
  window, loads the two shaders and only then resolves the three locations, once each
  and in the order \<open>camPos\<close>, \<open>camDir\<close>, \<open>screenCenter\<close>, against the raymarch shader,
  which is the shader the first \<^verbatim>\<open>LoadShader\<close> returned; the table holds the three
  answers of \<^verbatim>\<open>GetShaderLocation\<close>, and no other such call is made before the loop.
  \<open>camDist\<close> is computed there from the field of view of 45 degrees.
\<close>

theorem camDist_and_locations_fixed:
  fixes e tr
  defines "init \<equiv> calls_since tr (snd (main_init e tr))"
  shows "fst (frame e st tr) = st\<lparr>camera := camera (fst (frame e st tr))\<rparr>
   \<and> camDist (fst (frame e st tr)) = camDist st
   \<and> march_locs (fst (frame e st tr)) = march_locs st
   \<and> filter is_GetShaderLocation (snd (frame e st tr)) = filter is_GetShaderLocation tr
   \<and> camDist (fst (snd (main_loop n e st tr))) = camDist st
   \<and> march_locs (fst (snd (main_loop n e st tr))) = march_locs st
   \<and> filter is_GetShaderLocation (snd (snd (main_loop n e st tr))) =
       filter is_GetShaderLocation tr
   \<and> filter is_GetShaderLocation (snd (main_init e tr)) =
       filter is_GetShaderLocation tr @
       [GetShaderLocation (raymarch_shader (fst (main_init e tr))) ''camPos'',
        GetShaderLocation (raymarch_shader (fst (main_init e tr))) ''camDir'',
        GetShaderLocation (raymarch_shader (fst (main_init e tr))) ''screenCenter'']
   \<and> camDist (fst (main_init e tr)) =
       double_div e 1 (double_tan e (double_mul e (double_mul e 45 0.5) (DEG2RAD e)))
   \<and> take 8 init =
       [InitWindow screenWidth screenHeight ''raylib [shaders] example - write depth buffer'',
        TextFormat ''resources/shaders/glsl%i/hybrid_raymarch.fs'' (GLSL_VERSION e),
        LoadShader None (TextFormat_ret e (tr @ take 2 init)),
        TextFormat ''resources/shaders/glsl%i/hybrid_raster.fs'' (GLSL_VERSION e),
        LoadShader None (TextFormat_ret e (tr @ take 4 init)),
        GetShaderLocation (raymarch_shader (fst (main_init e tr))) ''camPos'',
        GetShaderLocation (raymarch_shader (fst (main_init e tr))) ''camDir'',
        GetShaderLocation (raymarch_shader (fst (main_init e tr))) ''screenCenter'']
   \<and> raymarch_shader (fst (main_init e tr)) = LoadShader_ret e (tr @ take 3 init)
   \<and> march_locs (fst (main_init e tr)) =
       \<lparr>camPos = word_of_int (GetShaderLocation_ret e (tr @ take 6 init)),
        camDir = word_of_int (GetShaderLocation_ret e (tr @ take 7 init)),
        screenCenter = word_of_int (GetShaderLocation_ret e (tr @ take 8 init))\<rparr>"
proof -
  have init: "main_init e tr = (fst (main_init e tr), snd (main_init e tr))"
    by simp
  show ?thesis
    unfolding init_def
    using init_GetShaderLocation [OF init] init_camDist [OF init]
      init_resolves(1,2,4) [OF init]
    by (simp add: frame_state frame_GetShaderLocation loop_camDist loop_march_locs
        loop_GetShaderLocation)
qed

section \<open>The camera distance\<close>

lemma tan_pi_8: "tan (pi / 8) = sqrt 2 - 1"
proof -
  define b where "b = sqrt 2 / 2 + 1"
  have sq: "sqrt 2 * sqrt 2 = (2::real)"
    by simp
  have pos: "b \<noteq> 0"
    unfolding b_def by (simp add: add_nonneg_eq_0_iff)
  have "(sqrt 2 - 1) * b = sqrt 2 / 2"
    unfolding b_def using sq by (simp add: algebra_simps diff_divide_distrib)
  then have quot: "sqrt 2 / 2 / b = sqrt 2 - 1"
    using pos by (simp add: field_simps)
  have "tan (pi / 8) = sin (pi / 4) / (cos (pi / 4) + 1)"
    using tan_half [of "pi / 8"] by simp
  also have "\<dots> = sqrt 2 / 2 / b"
    unfolding b_def by (simp only: sin_45 cos_45)
  finally show ?thesis
    using quot by simp
qed

lemma sqrt2_bounds: "1.41421 < sqrt 2" "sqrt 2 < 1.41422"
proof -
  show "1.41421 < sqrt 2"
    by (rule real_less_rsqrt) (simp add: power2_eq_square)
  show "sqrt 2 < 1.41422"
    by (rule real_less_lsqrt) (simp_all add: power2_eq_square)
qed

lemma cos_lower:
  assumes "0 \<le> x" "x \<le> pi / 4"
  shows "sqrt 2 / 2 \<le> cos x"
proof -
  have "cos (pi / 4) \<le> cos x"
    using assms by (intro cos_monotone_0_pi_le) simp_all
  then show ?thesis by (simp add: cos_45)
qed

lemma tan_near:
  assumes x: "0 \<le> x" "x \<le> pi / 4" and y: "0 \<le> y" "y \<le> pi / 4"
  shows "\<bar>tan x - tan y\<bar> \<le> 2 * \<bar>x - y\<bar>"
proof -
  have half: "1 / 2 \<le> sqrt 2 / 2"
    using real_sqrt_ge_one [of 2] by simp
  have cx: "1 / 2 \<le> cos x" and cy: "1 / 2 \<le> cos y"
    using cos_lower [OF x] cos_lower [OF y] half by linarith+
  have cx1: "sqrt 2 / 2 \<le> cos x" and cy1: "sqrt 2 / 2 \<le> cos y"
    using cos_lower [OF x] cos_lower [OF y] by simp_all
  have "0 \<le> cos x"
    using cx by linarith
  then have "sqrt 2 / 2 * (sqrt 2 / 2) \<le> cos x * cos y"
    using cx1 cy1 by (intro mult_mono) simp_all
  then have prod: "1 / 2 \<le> cos x * cos y"
    by simp
  define c where "c = cos x * cos y"
  have c: "1 / 2 \<le> c"
    using prod by (simp add: c_def)
  have "tan x - tan y = sin (x - y) / c"
    unfolding c_def using cx cy by (simp add: tan_def sin_diff field_simps)
  then have "\<bar>tan x - tan y\<bar> = \<bar>sin (x - y)\<bar> / c"
    using c by (simp add: abs_of_pos)
  also have "\<dots> \<le> \<bar>x - y\<bar> / c"
    using c abs_sin_x_le_abs_x [of "x - y"] by (intro divide_right_mono) simp_all
  also have "\<dots> \<le> \<bar>x - y\<bar> / (1 / 2)"
    using c by (intro divide_left_mono) simp_all
  finally show ?thesis by simp
qed


lemma abs_mult_le:
  fixes a b :: real
  assumes "\<bar>a\<bar> \<le> A" "\<bar>b\<bar> \<le> B"
  shows "\<bar>a * b\<bar> \<le> A * B"
proof -
  have "\<bar>a\<bar> * \<bar>b\<bar> \<le> A * B"
    using assms by (intro mult_mono) simp_all
  then show ?thesis by (simp add: abs_mult)
qed

lemma inverse_tan_pi_8: "1 / tan (pi / 8) = sqrt 2 + 1"
proof -
  have "(sqrt 2 - 1) * (sqrt 2 + 1) = 1"
    by (simp add: algebra_simps)
  moreover have "sqrt 2 - 1 \<noteq> 0"
    using sqrt2_bounds(1) by simp
  ultimately have "1 / (sqrt 2 - 1) = sqrt 2 + 1"
    by (simp add: field_simps)
  then show ?thesis by (simp add: tan_pi_8)
qed

lemma angle_accurate:
  assumes acc: "accurate_doubles e"
  shows "\<bar>double_mul e (double_mul e 45 0.5) (DEG2RAD e) - pi / 8\<bar> \<le> 1 / 10 ^ 7"
proof -
  define D where "D = DEG2RAD e"
  define m where "m = double_mul e 45 0.5"
  define x where "x = double_mul e m D"
  have hm: "\<bar>m - 45 * 0.5\<bar> \<le> \<bar>45 * 0.5\<bar> / 10 ^ 9"
    using acc unfolding accurate_doubles_def m_def by blast
  have hx: "\<bar>x - m * D\<bar> \<le> \<bar>m * D\<bar> / 10 ^ 9"
    using acc unfolding accurate_doubles_def x_def by blast
  have hD: "\<bar>D - pi / 180\<bar> \<le> 1 / 10 ^ 9"
    using acc unfolding accurate_doubles_def D_def by blast
  have m1: "\<bar>m - 45 / 2\<bar> \<le> 45 / 2000000000"
    using hm by simp
  have D1: "\<bar>D - pi / 180\<bar> \<le> 1 / 1000000000"
    using hD by simp
  have mb: "\<bar>m\<bar> \<le> 23"
    using m1 by linarith
  have Db: "\<bar>D\<bar> \<le> 3 / 100"
    using D1 pi_less_4 pi_gt_zero by linarith
  have "\<bar>m * D\<bar> \<le> 23 * (3 / 100)"
    using mb Db by (rule abs_mult_le)
  then have "\<bar>m * D\<bar> / 10 ^ 9 \<le> 1 / 1000000000"
    by simp
  then have e1: "\<bar>x - m * D\<bar> \<le> 1 / 1000000000"
    using hx by linarith
  have "\<bar>(m - 45 / 2) * D\<bar> \<le> 45 / 2000000000 * (3 / 100)"
    using m1 Db by (rule abs_mult_le)
  then have e2: "\<bar>(m - 45 / 2) * D\<bar> \<le> 1 / 1000000000"
    by simp
  define d where "d = D - pi / 180"
  have d: "\<bar>d\<bar> \<le> 1 / 1000000000"
    using D1 by (simp add: d_def)
  have "x - pi / 8 = (x - m * D) + (m - 45 / 2) * D + 45 / 2 * d"
    by (simp add: algebra_simps d_def)
  then have "\<bar>x - pi / 8\<bar> \<le> 1 / 10000000"
    using e1 e2 d by linarith
  then have "\<bar>x - pi / 8\<bar> \<le> 1 / 10 ^ 7"
    by simp
  then show ?thesis
    by (simp add: x_def m_def D_def)
qed


lemma sqrt2_fractions: "141421 / 100000 < sqrt 2" "sqrt 2 < 141422 / 100000"
  using sqrt2_bounds by simp_all

lemma camDist_accurate:
  assumes acc: "accurate_doubles e"
  defines "c \<equiv> double_div e 1
      (double_tan e (double_mul e (double_mul e 45 0.5) (DEG2RAD e)))"
  shows "\<bar>c - 1 / tan (pi / 8)\<bar> < 1 / 10 ^ 5" and "\<bar>c - 2.4142\<bar> < 1 / 10 ^ 4" and "0 < c"
proof -
  define x where "x = double_mul e (double_mul e 45 0.5) (DEG2RAD e)"
  define u where "u = tan x"
  define T where "T = double_tan e x"
  define t where "t = sqrt 2 - 1"
  define q where "q = 1 / T"
  have c: "c = double_div e 1 T"
    by (simp add: c_def T_def x_def)
  have hx: "\<bar>x - pi / 8\<bar> \<le> 1 / 10000000"
    using angle_accurate [OF acc] by (simp add: x_def)
  have x0: "0 \<le> x" and x1: "x \<le> pi / 4"
    using hx pi_ge_two by linarith+
  have p0: "0 \<le> pi / 8" and p1: "pi / 8 \<le> pi / 4"
    using pi_ge_two by linarith+
  have "\<bar>tan x - tan (pi / 8)\<bar> \<le> 2 * \<bar>x - pi / 8\<bar>"
    using x0 x1 p0 p1 by (rule tan_near)
  then have hu: "\<bar>u - t\<bar> \<le> 2 / 10000000"
    using hx by (simp add: u_def t_def tan_pi_8)
  have t0: "41421 / 100000 < t" and t1: "t < 41422 / 100000"
    using sqrt2_fractions by (simp_all add: t_def)
  have ub: "\<bar>u\<bar> \<le> 1"
    using hu t0 t1 by linarith
  have "\<bar>T - u\<bar> \<le> \<bar>u\<bar> / 10 ^ 9"
    using acc unfolding accurate_doubles_def T_def u_def by blast
  moreover have "\<bar>u\<bar> / 10 ^ 9 \<le> 1 / 1000000000"
    using ub by simp
  ultimately have hT: "\<bar>T - t\<bar> \<le> 3 / 10000000"
    using hu by linarith
  have T0: "4142 / 10000 \<le> T"
    using hT t0 by linarith
  have Tpos: "0 < T" and tpos: "0 < t"
    using T0 t0 by linarith+
  define p where "p = T * t"
  have "4142 / 10000 * (41421 / 100000) \<le> T * t"
    using T0 t0 by (intro mult_mono) simp_all
  then have p: "17 / 100 \<le> p"
    by (simp add: p_def)
  have "1 / T - 1 / t = (t - T) / p"
    using Tpos tpos by (simp add: p_def field_simps)
  then have "\<bar>q - 1 / t\<bar> = \<bar>t - T\<bar> / p"
    using p by (simp add: q_def abs_of_pos)
  also have "\<dots> \<le> \<bar>t - T\<bar> / (17 / 100)"
    using p by (intro divide_left_mono) simp_all
  also have "\<dots> \<le> 2 / 1000000"
    using hT by (simp add: abs_minus_commute)
  finally have hq: "\<bar>q - 1 / t\<bar> \<le> 2 / 1000000" .
  have "1 / T \<le> 1 / (4142 / 10000)"
    using T0 by (intro divide_left_mono) simp_all
  then have qb: "\<bar>q\<bar> \<le> 3"
    using Tpos by (simp add: q_def)
  have "\<bar>c - 1 / T\<bar> \<le> \<bar>1 / T\<bar> / 10 ^ 9"
    using acc unfolding accurate_doubles_def c by blast
  moreover have "\<bar>q\<bar> / 10 ^ 9 \<le> 3 / 1000000000"
    using qb by simp
  ultimately have hc: "\<bar>c - q\<bar> \<le> 3 / 1000000000"
    by (simp add: q_def)
  have inv: "1 / t = sqrt 2 + 1"
    using inverse_tan_pi_8 by (simp add: t_def tan_pi_8)
  have r0: "241421 / 100000 < 1 / t" and r1: "1 / t < 241422 / 100000"
    using sqrt2_fractions by (simp_all add: inv)
  have "\<bar>c - 1 / t\<bar> < 1 / 100000"
    using hc hq by linarith
  then show "\<bar>c - 1 / tan (pi / 8)\<bar> < 1 / 10 ^ 5"
    by (simp add: t_def tan_pi_8)
  have "\<bar>c - 24142 / 10000\<bar> < 1 / 10000"
    using hc hq r0 r1 by linarith
  then show "\<bar>c - 2.4142\<bar> < 1 / 10 ^ 4"
    by simp
  show "0 < c"
    using hc hq r0 by linarith
qed


lemma sample_accurate: "accurate_doubles (sample_extern fbo ok)"
  by (simp add: accurate_doubles_def sample_extern_def)




text \<open>
  Claim C3. The camera distance is a function of the field of view alone: it is
  \<^verbatim>\<open>1.0/tan(fovy*0.5*DEG2RAD)\<close> in the arithmetic of the machine, whatever the history
  and whatever the library answers, and the field of view is 45 degrees. With
  arithmetic as accurate as \<open>accurate_doubles\<close> asks, it is within \<open>10\<^sup>-\<^sup>5\<close> of
  \<open>1 / tan (fovy_in_radians / 2)\<close> and within \<open>10\<^sup>-\<^sup>4\<close> of 2.4142.
\<close>

theorem camDist_value:
  "camDist (fst (main_init e tr)) =
     double_div e 1 (double_tan e
       (double_mul e (double_mul e (fovy (camera (fst (main_init e tr)))) 0.5) (DEG2RAD e)))
   \<and> fovy (camera (fst (main_init e tr))) = 45
   \<and> (accurate_doubles e \<longrightarrow>
        \<bar>camDist (fst (main_init e tr)) - 1 / tan (45 * (pi / 180) / 2)\<bar> < 1 / 10 ^ 5
        \<and> \<bar>camDist (fst (main_init e tr)) - 2.4142\<bar> < 1 / 10 ^ 4)"
proof -
  have cam: "fovy (camera (fst (main_init e tr))) = 45"
    using init_camera [of e tr "fst (main_init e tr)" "snd (main_init e tr)"] by simp
  have dist: "camDist (fst (main_init e tr)) =
      double_div e 1 (double_tan e (double_mul e (double_mul e 45 0.5) (DEG2RAD e)))"
    using init_camDist [of e tr "fst (main_init e tr)" "snd (main_init e tr)"] by simp
  have angle: "45 * (pi / 180) / 2 = pi / 8"
    by simp
  show ?thesis
    using camDist_accurate(1,2) [of e] by (simp only: cam dist angle) blast
qed

theorem camDist_value_witness:
  "accurate_doubles (sample_extern 1 True)
   \<and> \<bar>camDist (fst (main_init (sample_extern 1 True) [])) - 2.4142\<bar> < 1 / 10 ^ 4"
  using camDist_value [of "sample_extern 1 True" "[]"] sample_accurate [of 1 True]
  by blast

section \<open>The direction uploaded in a frame\<close>







section \<open>The uniforms of the first frame\<close>





end
